theory Spec2Isabelle
  imports Complex_Main
begin

section \<open>JSON values as the handlers see them\<close>

text \<open>
  \<^verbatim>\<open>request.get_json()\<close> hands the handlers an untyped Python value. \<open>JNull\<close> is
  \<^verbatim>\<open>None\<close>, \<open>JFloat\<close> holds a Python float as its exact rational value (only its
  comparison with zero is ever used), \<open>JObj\<close> lists the pairs of an object in the order
  of the text; as in \<^verbatim>\<open>json.loads\<close>, a repeated key keeps its last value.
\<close>

datatype json =
    JNull
  | JBool bool
  | JInt int
  | JFloat rat
  | JStr string
  | JArr "json list"
  | JObj "(string \<times> json) list"

text \<open>
  The exceptions that travel through the handlers. \<open>HTTPException c\<close> is what
  \<^verbatim>\<open>abort(c)\<close> raises; like every other member it is an instance of Python's
  \<^verbatim>\<open>Exception\<close>, so an \<^verbatim>\<open>except Exception\<close> clause catches it.
  \<^verbatim>\<open>AuthError\<close> is declared in \<^verbatim>\<open>auth/auth.py\<close>; the error handler reads its
  two attributes \<^verbatim>\<open>error\<close> (a dict) and \<^verbatim>\<open>status_code\<close>.
\<close>

record AuthError =
  error :: "(string \<times> json) list"
  status_code :: nat

datatype exn =
    HTTPException nat
  | AuthErr AuthError
  | AttributeError
  | KeyError
  | TypeError
  | MultipleResultsFound
  | DBAPIError
  | OverflowError

text \<open>Python truthiness, the test behind \<^verbatim>\<open>not x\<close>.\<close>

fun truthy :: "json \<Rightarrow> bool" where
  "truthy JNull = False"
| "truthy (JBool b) = b"
| "truthy (JInt i) = (i \<noteq> 0)"
| "truthy (JFloat q) = (q \<noteq> 0)"
| "truthy (JStr s) = (s \<noteq> [])"
| "truthy (JArr xs) = (xs \<noteq> [])"
| "truthy (JObj kvs) = (kvs \<noteq> [])"

text \<open>\<^verbatim>\<open>d.get(k)\<close> on a dict: the value, or \<^verbatim>\<open>None\<close> when the key is absent.\<close>

definition py_get :: "(string \<times> json) list \<Rightarrow> string \<Rightarrow> json" where
  "py_get kvs k = (case map_of (rev kvs) k of None \<Rightarrow> JNull | Some v \<Rightarrow> v)"

text \<open>
  \<^verbatim>\<open>x.get(k)\<close> on an arbitrary value: only a dict has the method, every other JSON
  value (\<^verbatim>\<open>None\<close>, a number, a string, a list) raises \<^verbatim>\<open>AttributeError\<close>.
\<close>

fun dict_get :: "json \<Rightarrow> string \<Rightarrow> exn + json" where
  "dict_get (JObj kvs) k = Inr (py_get kvs k)"
| "dict_get v k = Inl AttributeError"

text \<open>\<^verbatim>\<open>x[k]\<close> on an arbitrary value, as \<^verbatim>\<open>Drink.short\<close> uses it.\<close>

fun dict_item :: "json \<Rightarrow> string \<Rightarrow> exn + json" where
  "dict_item (JObj kvs) k = (case map_of (rev kvs) k of None \<Rightarrow> Inl KeyError | Some v \<Rightarrow> Inr v)"
| "dict_item v k = Inl TypeError"

section \<open>The request body\<close>

text \<open>
  \<^verbatim>\<open>request.get_json()\<close> is the first statement of \<^verbatim>\<open>post_drink\<close> and of
  \<^verbatim>\<open>patch_drink\<close>. On a body that it cannot read as JSON it raises
  \<^verbatim>\<open>BadRequest\<close>, the exception of \<^verbatim>\<open>abort(400)\<close>; otherwise it returns the
  value. \<open>Readable JNull\<close> is the body \<^verbatim>\<open>null\<close> and, in the versions of the
  framework that answer \<^verbatim>\<open>None\<close> to a body that is not declared as JSON, such a
  body too.
\<close>

datatype raw_body = Unreadable | Readable json

fun get_json :: "raw_body \<Rightarrow> exn + json" where
  "get_json Unreadable = Inl (HTTPException 400)"
| "get_json (Readable v) = Inr v"

section \<open>Attribute validation\<close>

text \<open>
  \<^verbatim>\<open>if not r.get('name') or not r.get('parts') or not r.get('color'): abort(422)\<close>
  for one recipe entry; the three lookups run left to right.
\<close>

definition check_recipe_entry :: "json \<Rightarrow> exn + unit" where
  "check_recipe_entry r =
     (case dict_get r ''name'' of Inl e \<Rightarrow> Inl e | Inr n \<Rightarrow>
        if \<not> truthy n then Inl (HTTPException 422) else
     (case dict_get r ''parts'' of Inl e \<Rightarrow> Inl e | Inr p \<Rightarrow>
        if \<not> truthy p then Inl (HTTPException 422) else
     (case dict_get r ''color'' of Inl e \<Rightarrow> Inl e | Inr c \<Rightarrow>
        if \<not> truthy c then Inl (HTTPException 422) else Inr ())))"

text \<open>The loop \<^verbatim>\<open>for r in data.get('recipe')\<close>: it stops at the first entry that raises.\<close>

fun check_recipe :: "json list \<Rightarrow> exn + unit" where
  "check_recipe [] = Inr ()"
| "check_recipe (r # rs) =
     (case check_recipe_entry r of Inl e \<Rightarrow> Inl e | Inr u \<Rightarrow> check_recipe rs)"

definition check_drink_attribute :: "json \<Rightarrow> exn + unit" where
  "check_drink_attribute data =
     (case dict_get data ''title'' of Inl e \<Rightarrow> Inl e | Inr t \<Rightarrow>
        if \<not> truthy t then Inl (HTTPException 422) else
     (case dict_get data ''recipe'' of Inl e \<Rightarrow> Inl e | Inr rc \<Rightarrow>
        if \<not> truthy rc then Inl (HTTPException 422) else
        (case rc of
           JArr rs \<Rightarrow> check_recipe rs
         | _ \<Rightarrow> Inl (HTTPException 422))))"

section \<open>The drinks table\<close>

text \<open>
  Modelled from the spec: the \<^verbatim>\<open>Drink\<close> model of \<^verbatim>\<open>database/models.py\<close>, which is
  not among the sources. Section 3 gives a row an integer id (generated, unique), a title
  string and a recipe; section 6 stores the recipe as a serialized JSON text that is
  deserialized on read, so a row holds the JSON value itself. The table is the list of
  its rows in the order \<^verbatim>\<open>Drink.query.all()\<close> returns them.
\<close>

record Drink =
  drink_id :: nat
  title :: string
  recipe :: json

type_synonym db = "Drink list"

text \<open>
  Modelled from the spec: the short form exposes only color and parts of a recipe entry,
  the long form the whole recipe (section 3). Reading a key that an entry does not have
  raises, as a Python subscript does.
\<close>

definition short_entry :: "json \<Rightarrow> exn + json" where
  "short_entry r =
     (case dict_item r ''color'' of Inl e \<Rightarrow> Inl e | Inr c \<Rightarrow>
     (case dict_item r ''parts'' of Inl e \<Rightarrow> Inl e | Inr p \<Rightarrow>
        Inr (JObj [(''color'', c), (''parts'', p)])))"

fun map_exn :: "('a \<Rightarrow> exn + 'b) \<Rightarrow> 'a list \<Rightarrow> exn + 'b list" where
  "map_exn f [] = Inr []"
| "map_exn f (x # xs) =
     (case f x of Inl e \<Rightarrow> Inl e | Inr y \<Rightarrow>
     (case map_exn f xs of Inl e \<Rightarrow> Inl e | Inr ys \<Rightarrow> Inr (y # ys)))"

definition short :: "Drink \<Rightarrow> exn + json" where
  "short d =
     (case recipe d of
        JArr rs \<Rightarrow>
          (case map_exn short_entry rs of Inl e \<Rightarrow> Inl e | Inr srs \<Rightarrow>
             Inr (JObj [(''id'', JInt (int (drink_id d))), (''title'', JStr (title d)),
                        (''recipe'', JArr srs)]))
      | _ \<Rightarrow> Inl TypeError)"

definition long :: "Drink \<Rightarrow> exn + json" where
  "long d =
     Inr (JObj [(''id'', JInt (int (drink_id d))), (''title'', JStr (title d)),
                (''recipe'', recipe d)])"

text \<open>
  Modelled from the spec: \<^verbatim>\<open>insert\<close>, \<^verbatim>\<open>update\<close> and \<^verbatim>\<open>delete\<close> of the model
  (\<^verbatim>\<open>database/models.py\<close>). An insert appends a row under a generated id that no row
  has; an update rewrites the row of the object's id; a delete removes it. The store
  itself does not compare titles: section 9 notes that an update can retitle a drink to
  collide with another row.
\<close>

definition fresh_id :: "db \<Rightarrow> nat" where
  "fresh_id tbl = Suc (fold max (map drink_id tbl) 0)"

definition insert_row :: "string \<Rightarrow> json \<Rightarrow> db \<Rightarrow> Drink \<times> db" where
  "insert_row t rc tbl =
     (let d = \<lparr>drink_id = fresh_id tbl, title = t, recipe = rc\<rparr> in (d, tbl @ [d]))"

definition update_row :: "nat \<Rightarrow> string \<Rightarrow> json \<Rightarrow> db \<Rightarrow> db" where
  "update_row i t rc tbl =
     map (\<lambda>d. if drink_id d = i then d\<lparr>title := t, recipe := rc\<rparr> else d) tbl"

definition delete_row :: "nat \<Rightarrow> db \<Rightarrow> db" where
  "delete_row i tbl = filter (\<lambda>d. drink_id d \<noteq> i) tbl"

text \<open>
  Modelled from the spec: what the store makes of a Python value that is sent to the text
  column \<^verbatim>\<open>title\<close>, in an insert, an update or the argument of \<^verbatim>\<open>lower()\<close>
  (the engine is set up in \<^verbatim>\<open>database/models.py\<close>). A string is kept; an integer
  that fits 64 bits is kept as its decimal text and a boolean as the text of 1 or 0; a
  larger integer cannot be bound (\<^verbatim>\<open>OverflowError\<close>), neither can a list or a dict
  (an \<^verbatim>\<open>InterfaceError\<close> of the driver). The text that the store prints for a
  float is the parameter \<open>real_text\<close>. \<^verbatim>\<open>None\<close> is never sent: a falsy title
  does not pass the validation.
\<close>

definition digit_char :: "nat \<Rightarrow> char" where
  "digit_char n = char_of (48 + n)"

fun nat_text :: "nat \<Rightarrow> string" where
  "nat_text n =
     (if n < 10 then [digit_char n] else nat_text (n div 10) @ [digit_char (n mod 10)])"

declare nat_text.simps [simp del]

definition int_text :: "int \<Rightarrow> string" where
  "int_text i = (if i < 0 then CHR ''-'' # nat_text (nat (- i)) else nat_text (nat i))"

fun sql_text :: "(rat \<Rightarrow> string) \<Rightarrow> json \<Rightarrow> exn + string" where
  "sql_text real_text (JStr s) = Inr s"
| "sql_text real_text (JInt i) =
     (if - (2 ^ 63) \<le> i \<and> i < 2 ^ 63 then Inr (int_text i) else Inl OverflowError)"
| "sql_text real_text (JBool b) = Inr (if b then ''1'' else ''0'')"
| "sql_text real_text (JFloat q) = Inr (real_text q)"
| "sql_text real_text (JArr xs) = Inl DBAPIError"
| "sql_text real_text (JObj kvs) = Inl DBAPIError"
| "sql_text real_text JNull = Inl DBAPIError"

text \<open>
  Modelled from the spec: the id of a row is an integer key of the store, 64 bits wide
  and signed. The id of a URL is any natural number; one that does not fit cannot be
  bound to a query and the lookup raises.
\<close>

definition bind_key :: "nat \<Rightarrow> exn + nat" where
  "bind_key i = (if int i < 2 ^ 63 then Inr i else Inl OverflowError)"

text \<open>SQL \<^verbatim>\<open>lower()\<close>: the letters A to Z go to a to z, every other byte stays.\<close>

definition lower_char :: "char \<Rightarrow> char" where
  "lower_char c =
     (let n = (of_char c :: nat) in if 65 \<le> n \<and> n \<le> 90 then char_of (n + 32) else c)"

definition lower :: "string \<Rightarrow> string" where
  "lower s = map lower_char s"

text \<open>\<^verbatim>\<open>Query.one_or_none()\<close>: no row, the one row, or an exception on several rows.\<close>

fun one_or_none :: "'a list \<Rightarrow> exn + 'a option" where
  "one_or_none [] = Inr None"
| "one_or_none [x] = Inr (Some x)"
| "one_or_none (x # y # zs) = Inl MultipleResultsFound"

text \<open>\<^verbatim>\<open>Query.get_or_404(id)\<close>: the row of that primary key, or \<^verbatim>\<open>abort(404)\<close>.\<close>

definition get_or_404 :: "nat \<Rightarrow> db \<Rightarrow> exn + Drink" where
  "get_or_404 i tbl =
     (case find (\<lambda>d. drink_id d = i) tbl of
        None \<Rightarrow> Inl (HTTPException 404)
      | Some d \<Rightarrow> Inr d)"

section \<open>Route handlers\<close>

text \<open>
  Each handler takes the claim set \<open>payload\<close> that the authorization decorator passes
  in, the body of the request where it reads one, and the table; it returns the body
  given to \<^verbatim>\<open>jsonify\<close> or the exception that leaves the function, together with
  the table as it then stands.
\<close>

definition get_drinks :: "db \<Rightarrow> exn + json" where
  "get_drinks tbl =
     (case map_exn short tbl of
        Inl e \<Rightarrow> Inl (HTTPException 500)
      | Inr drinks_short \<Rightarrow>
          Inr (JObj [(''sucess'', JBool True), (''drinks'', JArr drinks_short)]))"

definition get_drinks_detail :: "json \<Rightarrow> db \<Rightarrow> exn + json" where
  "get_drinks_detail payload tbl =
     (case map_exn long tbl of
        Inl e \<Rightarrow> Inl (HTTPException 500)
      | Inr drinks_long \<Rightarrow>
          Inr (JObj [(''sucess'', JBool True), (''drinks'', JArr drinks_long)]))"

text \<open>The \<^verbatim>\<open>try\<close> block of \<^verbatim>\<open>post_drink\<close>; its \<^verbatim>\<open>except\<close> clause is in the handler.\<close>

definition post_drink_try :: "(rat \<Rightarrow> string) \<Rightarrow> json \<Rightarrow> db \<Rightarrow> (exn + json) \<times> db" where
  "post_drink_try real_text data tbl =
     (case dict_get data ''title'' of Inl e \<Rightarrow> (Inl e, tbl) | Inr t \<Rightarrow>
     (case dict_get data ''recipe'' of Inl e \<Rightarrow> (Inl e, tbl) | Inr rc \<Rightarrow>
     (case sql_text real_text t of Inl e \<Rightarrow> (Inl e, tbl) | Inr s \<Rightarrow>
        (let (new_drink, tbl') = insert_row s rc tbl in
           (case short new_drink of
              Inl e \<Rightarrow> (Inl e, tbl')
            | Inr sh \<Rightarrow> (Inr (JObj [(''success'', JBool True), (''drinks'', JArr [sh])]), tbl'))))))"

definition post_drink ::
  "(rat \<Rightarrow> string) \<Rightarrow> json \<Rightarrow> raw_body \<Rightarrow> db \<Rightarrow> (exn + json) \<times> db" where
  "post_drink real_text payload request_body tbl =
     (case get_json request_body of Inl e \<Rightarrow> (Inl e, tbl) | Inr data \<Rightarrow>
     (case check_drink_attribute data of Inl e \<Rightarrow> (Inl e, tbl) | Inr u \<Rightarrow>
     (case dict_get data ''title'' of Inl e \<Rightarrow> (Inl e, tbl) | Inr t \<Rightarrow>
     (case sql_text real_text t of Inl e \<Rightarrow> (Inl e, tbl) | Inr s \<Rightarrow>
     (case one_or_none (filter (\<lambda>d. lower (title d) = lower s) tbl) of
        Inl e \<Rightarrow> (Inl e, tbl)
      | Inr (Some drink) \<Rightarrow> (Inl (HTTPException 422), tbl)
      | Inr None \<Rightarrow>
          (case post_drink_try real_text data tbl of
             (Inl e, tbl') \<Rightarrow> (Inl (HTTPException 400), tbl')
           | (Inr b, tbl') \<Rightarrow> (Inr b, tbl')))))))"

text \<open>
  The \<^verbatim>\<open>try\<close> block of \<^verbatim>\<open>patch_drink\<close>. Its last statement calls the handler of
  \<^verbatim>\<open>GET /drinks\<close>; whatever that raises is caught by the enclosing \<^verbatim>\<open>except\<close>.
\<close>

definition patch_drink_try ::
  "(rat \<Rightarrow> string) \<Rightarrow> nat \<Rightarrow> json \<Rightarrow> db \<Rightarrow> (exn + json) \<times> db" where
  "patch_drink_try real_text i data tbl =
     (case dict_get data ''title'' of Inl e \<Rightarrow> (Inl e, tbl) | Inr t \<Rightarrow>
     (case dict_get data ''recipe'' of Inl e \<Rightarrow> (Inl e, tbl) | Inr rc \<Rightarrow>
     (case sql_text real_text t of Inl e \<Rightarrow> (Inl e, tbl) | Inr s \<Rightarrow>
        (let tbl' = update_row i s rc tbl in (get_drinks tbl', tbl')))))"

definition patch_drink ::
  "(rat \<Rightarrow> string) \<Rightarrow> json \<Rightarrow> nat \<Rightarrow> raw_body \<Rightarrow> db \<Rightarrow> (exn + json) \<times> db" where
  "patch_drink real_text payload i request_body tbl =
     (case get_json request_body of Inl e \<Rightarrow> (Inl e, tbl) | Inr data \<Rightarrow>
     (case bind_key i of Inl e \<Rightarrow> (Inl e, tbl) | Inr k \<Rightarrow>
     (case one_or_none (filter (\<lambda>d. drink_id d = k) tbl) of
        Inl e \<Rightarrow> (Inl e, tbl)
      | Inr None \<Rightarrow> (Inl (HTTPException 404), tbl)
      | Inr (Some drink) \<Rightarrow>
          (case check_drink_attribute data of Inl e \<Rightarrow> (Inl e, tbl) | Inr u \<Rightarrow>
          (case patch_drink_try real_text (drink_id drink) data tbl of
             (Inl e, tbl') \<Rightarrow> (Inl (HTTPException 400), tbl')
           | (Inr b, tbl') \<Rightarrow> (Inr b, tbl'))))))"

text \<open>
  The \<^verbatim>\<open>try\<close> block of \<^verbatim>\<open>delete_drink\<close>: the lookup, with its \<^verbatim>\<open>abort(404)\<close>,
  is inside the block.
\<close>

definition delete_drink_try :: "nat \<Rightarrow> db \<Rightarrow> (exn + json) \<times> db" where
  "delete_drink_try i tbl =
     (case bind_key i of Inl e \<Rightarrow> (Inl e, tbl) | Inr k \<Rightarrow>
     (case get_or_404 k tbl of
        Inl e \<Rightarrow> (Inl e, tbl)
      | Inr drink \<Rightarrow>
          (Inr (JObj [(''success'', JBool True), (''delete'', JInt (int i))]),
           delete_row (drink_id drink) tbl)))"

definition delete_drink :: "json \<Rightarrow> nat \<Rightarrow> db \<Rightarrow> (exn + json) \<times> db" where
  "delete_drink payload i tbl =
     (case delete_drink_try i tbl of
        (Inl e, tbl') \<Rightarrow> (Inl (HTTPException 500), tbl')
      | (Inr b, tbl') \<Rightarrow> (Inr b, tbl'))"

section \<open>Error handlers and dispatch\<close>

datatype content = Json json | Html

record response =
  status :: nat
  body :: content

definition error_body :: "nat \<Rightarrow> string \<Rightarrow> response" where
  "error_body c msg =
     \<lparr>status = c,
      body = Json (JObj [(''success'', JBool False), (''error'', JInt (int c)),
                         (''message'', JStr msg)])\<rparr>"

definition bad_request :: response where
  "bad_request = error_body 400 ''Bad Request''"

definition unauthorized :: response where
  "unauthorized = error_body 401 ''Unauthorized''"

definition forbidden :: response where
  "forbidden = error_body 403 ''Forbidden''"

definition not_found :: response where
  "not_found = error_body 404 ''Resource not found''"

definition method_not_allowed :: response where
  "method_not_allowed = error_body 405 ''Method not allowed''"

definition unprocessable :: response where
  "unprocessable = error_body 422 ''Unprocessable''"

definition unknown :: response where
  "unknown = error_body 500 ''Unknown server error''"

definition auth_error :: "AuthError \<Rightarrow> response" where
  "auth_error err =
     \<lparr>status = status_code err,
      body = Json (JObj [(''success'', JBool False),
                         (''error'', JInt (int (status_code err))),
                         (''error_code'', py_get (error err) ''code''),
                         (''message'', py_get (error err) ''description'')])\<rparr>"

text \<open>
  Flask's choice of handler for an exception that leaves a view: the handler registered
  for the exception class or for the status code; an HTTP exception of another code
  answers with the framework's own page; any other exception is an internal server
  error and goes to the handler of 500.
\<close>

definition handle_exception :: "exn \<Rightarrow> response" where
  "handle_exception e =
     (case e of
        AuthErr err \<Rightarrow> auth_error err
      | HTTPException c \<Rightarrow>
          if c = 400 then bad_request
          else if c = 401 then unauthorized
          else if c = 403 then forbidden
          else if c = 404 then not_found
          else if c = 405 then method_not_allowed
          else if c = 422 then unprocessable
          else if c = 500 then unknown
          else \<lparr>status = c, body = Html\<rparr>
      | _ \<Rightarrow> unknown)"







section \<open>Properties of the table and of responses\<close>

text \<open>The invariant of section 3: no two rows have titles that are equal up to case.\<close>

definition titles_unique :: "db \<Rightarrow> bool" where
  "titles_unique tbl = distinct (map (\<lambda>d. lower (title d)) tbl)"



text \<open>
  A sequence of mutating requests, run by handlers that have passed authorization; the
  table it leaves, provided every request of the sequence succeeded.
\<close>

datatype mutation = POST raw_body | PATCH nat raw_body

fun mutate :: "(rat \<Rightarrow> string) \<Rightarrow> mutation \<Rightarrow> db \<Rightarrow> (exn + json) \<times> db" where
  "mutate real_text (POST request_body) tbl = post_drink real_text JNull request_body tbl"
| "mutate real_text (PATCH i request_body) tbl = patch_drink real_text JNull i request_body tbl"

fun successful :: "(rat \<Rightarrow> string) \<Rightarrow> mutation list \<Rightarrow> db \<Rightarrow> db option" where
  "successful real_text [] tbl = Some tbl"
| "successful real_text (m # ms) tbl =
     (case mutate real_text m tbl of
        (Inl e, tbl') \<Rightarrow> None
      | (Inr b, tbl') \<Rightarrow> successful real_text ms tbl')"

text \<open>
  The table of a store: the ids are a primary key, pairwise distinct and 64 bits wide.
\<close>

definition primary_key :: "db \<Rightarrow> bool" where
  "primary_key tbl = (distinct (map drink_id tbl) \<and> list_all (\<lambda>d. int (drink_id d) < 2 ^ 63) tbl)"

subsection \<open>Sample data\<close>

text \<open>The drink of section 8: one recipe entry, water, blue, one part.\<close>

definition water_recipe :: json where
  "water_recipe =
     JArr [JObj [(''name'', JStr ''water''), (''color'', JStr ''blue''), (''parts'', JInt 1)]]"

definition drink_payload :: "string \<Rightarrow> raw_body" where
  "drink_payload t = Readable (JObj [(''title'', JStr t), (''recipe'', water_recipe)])"

definition zero_parts_payload :: raw_body where
  "zero_parts_payload =
     Readable (JObj [(''title'', JStr ''Water''),
       (''recipe'', JArr [JObj [(''name'', JStr ''water''), (''color'', JStr ''blue''),
                                (''parts'', JInt 0)]])])"

text \<open>The same entry behind an entry that is a number, not an object.\<close>

definition late_zero_parts_payload :: raw_body where
  "late_zero_parts_payload =
     Readable (JObj [(''title'', JStr ''Water''),
       (''recipe'', JArr [JInt 5,
                          JObj [(''name'', JStr ''water''), (''color'', JStr ''blue''),
                                (''parts'', JInt 0)]])])"

text \<open>A recipe whose second entry has no name, behind an entry that is a number.\<close>

definition unnamed_entry_payload :: raw_body where
  "unnamed_entry_payload =
     Readable (JObj [(''title'', JStr ''Tea''),
       (''recipe'', JArr [JInt 5, JObj [(''color'', JStr ''green''), (''parts'', JInt 1)]])])"

text \<open>
  A rendering of floats for the concrete runs below, none of which sends a float title.
\<close>

definition blank_real_text :: "rat \<Rightarrow> string" where
  "blank_real_text q = []"

definition water_table :: db where
  "water_table = [\<lparr>drink_id = 1, title = ''Water'', recipe = water_recipe\<rparr>]"

definition two_waters :: db where
  "two_waters =
     [\<lparr>drink_id = 1, title = ''Water'', recipe = water_recipe\<rparr>,
      \<lparr>drink_id = 2, title = ''water'', recipe = water_recipe\<rparr>]"


section \<open>What the validation can return\<close>

lemma check_recipe_entry_obj:
  "check_recipe_entry (JObj fs) = Inl (HTTPException 422) \<or> check_recipe_entry (JObj fs) = Inr ()"
  by (simp add: check_recipe_entry_def)

lemma check_recipe_entry_lacking:
  "\<not> truthy (py_get fs ''name'') \<or> \<not> truthy (py_get fs ''parts'') \<or> \<not> truthy (py_get fs ''color'')
   \<Longrightarrow> check_recipe_entry (JObj fs) = Inl (HTTPException 422)"
  by (auto simp add: check_recipe_entry_def)



lemma check_recipe_objects:
  "\<forall>r\<in>set rs. \<exists>fs. r = JObj fs \<Longrightarrow>
   check_recipe rs = Inl (HTTPException 422) \<or> check_recipe rs = Inr ()"
proof (induction rs)
  case Nil
  then show ?case by simp
next
  case (Cons r rs)
  then obtain fs where r: "r = JObj fs" by auto
  from Cons have "check_recipe rs = Inl (HTTPException 422) \<or> check_recipe rs = Inr ()" by simp
  with check_recipe_entry_obj [of fs] r show ?case by auto
qed

text \<open>The loop stops with 422 at the first entry that lacks a field, if it gets there.\<close>

lemma check_recipe_lacking:
  assumes "\<forall>r\<in>set pre. \<exists>fs. r = JObj fs"
    and "check_recipe_entry r = Inl (HTTPException 422)"
  shows "check_recipe (pre @ r # post) = Inl (HTTPException 422)"
  using assms
proof (induction pre)
  case Nil
  then show ?case by simp
next
  case (Cons a pre)
  then obtain fs where a: "a = JObj fs" by auto
  from Cons have "check_recipe (pre @ r # post) = Inl (HTTPException 422)" by simp
  with check_recipe_entry_obj [of fs] a show ?case by auto
qed


lemma check_drink_attribute_objects:
  assumes "\<forall>rs. py_get kvs ''recipe'' = JArr rs \<longrightarrow> (\<forall>r\<in>set rs. \<exists>fs. r = JObj fs)"
  shows "check_drink_attribute (JObj kvs) = Inl (HTTPException 422) \<or>
         check_drink_attribute (JObj kvs) = Inr ()"
  using assms check_recipe_objects
  by (auto simp add: check_drink_attribute_def split: json.splits)

text \<open>
  An object payload with a falsy title or recipe, a recipe that is not a list, or an
  object entry that lacks a field behind object entries only, fails the validation
  with 422.
\<close>

lemma check_drink_attribute_invalid:
  assumes "\<not> truthy (py_get kvs ''title'') \<or> \<not> truthy (py_get kvs ''recipe'') \<or>
     (\<forall>rs. py_get kvs ''recipe'' \<noteq> JArr rs) \<or>
     (\<exists>pre fs post. py_get kvs ''recipe'' = JArr (pre @ JObj fs # post) \<and>
        (\<forall>r\<in>set pre. \<exists>gs. r = JObj gs) \<and>
        (\<not> truthy (py_get fs ''name'') \<or> \<not> truthy (py_get fs ''color'') \<or>
         \<not> truthy (py_get fs ''parts'')))"
  shows "check_drink_attribute (JObj kvs) = Inl (HTTPException 422)"
proof -
  consider (title) "\<not> truthy (py_get kvs ''title'')"
    | (recipe) "\<not> truthy (py_get kvs ''recipe'')"
    | (nolist) "\<forall>rs. py_get kvs ''recipe'' \<noteq> JArr rs"
    | (entry) pre fs post where "py_get kvs ''recipe'' = JArr (pre @ JObj fs # post)"
        "\<forall>r\<in>set pre. \<exists>gs. r = JObj gs"
        "\<not> truthy (py_get fs ''name'') \<or> \<not> truthy (py_get fs ''color'') \<or>
         \<not> truthy (py_get fs ''parts'')"
    using assms by blast
  then show ?thesis
  proof cases
    case title
    then show ?thesis by (simp add: check_drink_attribute_def)
  next
    case recipe
    then show ?thesis by (simp add: check_drink_attribute_def)
  next
    case nolist
    then show ?thesis by (simp add: check_drink_attribute_def split: json.splits)
  next
    case entry
    from entry(3) have "check_recipe_entry (JObj fs) = Inl (HTTPException 422)"
      by (intro check_recipe_entry_lacking) blast
    with entry(2) have "check_recipe (pre @ JObj fs # post) = Inl (HTTPException 422)"
      by (rule check_recipe_lacking)
    with entry(1) show ?thesis by (simp add: check_drink_attribute_def)
  qed
qed

section \<open>Handlers stop before any write\<close>

lemma filter_primary_key:
  "distinct (map drink_id tbl) \<Longrightarrow> d \<in> set tbl \<Longrightarrow>
   filter (\<lambda>x. drink_id x = drink_id d) tbl = [d]"
proof (induction tbl)
  case Nil
  then show ?case by simp
next
  case (Cons a tbl)
  show ?case
  proof (cases "a = d")
    case True
    with Cons.prems have "\<forall>x\<in>set tbl. drink_id x \<noteq> drink_id d"
      by (force simp add: image_iff)
    then have "filter (\<lambda>x. drink_id x = drink_id d) tbl = []" by (simp add: filter_empty_conv)
    with True show ?thesis by simp
  next
    case False
    with Cons.prems have "d \<in> set tbl" "distinct (map drink_id tbl)" "drink_id a \<noteq> drink_id d"
      by auto
    with Cons.IH show ?thesis by simp
  qed
qed

lemma post_drink_rejected:
  "check_drink_attribute data = Inl e \<Longrightarrow>
   post_drink real_text payload (Readable data) tbl = (Inl e, tbl)"
  by (simp add: post_drink_def)

lemma patch_drink_rejected:
  "i < 2 ^ 63 \<Longrightarrow> filter (\<lambda>d. drink_id d = i) tbl = [d] \<Longrightarrow>
   check_drink_attribute data = Inl e \<Longrightarrow>
   patch_drink real_text payload i (Readable data) tbl = (Inl e, tbl)"
  by (simp add: patch_drink_def bind_key_def)

lemma patch_drink_existing_rejected:
  assumes "check_drink_attribute data = Inl e"
    and "primary_key tbl" and "i \<in> drink_id ` set tbl"
  shows "patch_drink real_text payload i (Readable data) tbl = (Inl e, tbl)"
proof -
  from assms(3) obtain d where d: "d \<in> set tbl" "i = drink_id d" by auto
  with assms(2) have "filter (\<lambda>x. drink_id x = i) tbl = [d]"
    by (simp add: primary_key_def filter_primary_key)
  moreover from d assms(2) have "i < 2 ^ 63"
    by (simp add: primary_key_def list_all_iff)
  ultimately show ?thesis using assms(1) by (simp add: patch_drink_rejected)
qed

lemma patch_drink_unknown:
  assumes "i < 2 ^ 63" and "\<forall>d\<in>set tbl. drink_id d \<noteq> i"
  shows "patch_drink real_text payload i (Readable data) tbl = (Inl (HTTPException 404), tbl)"
proof -
  from assms(2) have "filter (\<lambda>d. drink_id d = i) tbl = []" by (simp add: filter_empty_conv)
  with assms(1) show ?thesis by (simp add: patch_drink_def bind_key_def)
qed

text \<open>
  The lookup of \<^verbatim>\<open>delete_drink\<close> is inside its \<^verbatim>\<open>try\<close>: for an id that no row
  has, the 404 it raises is caught and replaced by 500; the table stays as it was.
\<close>

lemma delete_drink_unknown:
  assumes "\<forall>d\<in>set tbl. drink_id d \<noteq> i"
  shows "delete_drink payload i tbl = (Inl (HTTPException 500), tbl)"
proof -
  from assms have "find (\<lambda>d. drink_id d = i) tbl = None" by (simp add: find_None_iff)
  then show ?thesis
    by (simp add: delete_drink_def delete_drink_try_def get_or_404_def bind_key_def)
qed

lemma status_handlers:
  "status (handle_exception (HTTPException 422)) = 422"
  "status (handle_exception (HTTPException 404)) = 404"
  "status (handle_exception (HTTPException 500)) = 500"
  "status (handle_exception (HTTPException 400)) = 400"
  "status (handle_exception MultipleResultsFound) = 500"
  "status (handle_exception AttributeError) = 500"
  "status (handle_exception OverflowError) = 500"
  by (simp_all add: handle_exception_def unprocessable_def not_found_def unknown_def
      bad_request_def error_body_def)

text \<open>A successful \<^verbatim>\<open>POST\<close> keeps the titles distinct up to case.\<close>

lemma post_drink_keeps_titles_unique:
  assumes "post_drink real_text payload request_body tbl = (Inr b, tbl')" and "titles_unique tbl"
  shows "titles_unique tbl'"
proof (cases request_body)
  case Unreadable
  with assms(1) show ?thesis by (simp add: post_drink_def)
next
  case (Readable data)
  with assms show ?thesis
    by (auto simp add: post_drink_def post_drink_try_def insert_row_def titles_unique_def
        filter_empty_conv Let_def
        split: sum.splits option.splits prod.splits list.splits
        elim!: one_or_none.elims)
       blast
qed

text \<open>
  With one row of that title in the table, a \<^verbatim>\<open>POST\<close> of a duplicate title is
  answered with 422.
\<close>

lemma post_drink_single_duplicate:
  assumes t: "py_get kvs ''title'' = JStr s"
    and one: "filter (\<lambda>d. lower (title d) = lower s) tbl = [d]"
    and obj: "\<forall>rs. py_get kvs ''recipe'' = JArr rs \<longrightarrow> (\<forall>r\<in>set rs. \<exists>fs. r = JObj fs)"
  shows "post_drink real_text payload (Readable (JObj kvs)) tbl = (Inl (HTTPException 422), tbl)"
proof -
  from obj have "check_drink_attribute (JObj kvs) = Inl (HTTPException 422) \<or>
      check_drink_attribute (JObj kvs) = Inr ()"
    by (rule check_drink_attribute_objects)
  then show ?thesis
  proof
    assume "check_drink_attribute (JObj kvs) = Inl (HTTPException 422)"
    then show ?thesis by (rule post_drink_rejected)
  next
    assume "check_drink_attribute (JObj kvs) = Inr ()"
    with t one show ?thesis by (simp add: post_drink_def)
  qed
qed

section \<open>Exceptions that leave a handler\<close>















section \<open>The claims\<close>

text \<open>
  C1. A \<^verbatim>\<open>DELETE /drinks/{id}\<close> request with the permission, for an id that no row
  has, should answer 404 and leave the table as it was. The handler answers 500: on the
  empty table the request for id 1 leaves \<^verbatim>\<open>delete_drink\<close> with the exception of
  \<^verbatim>\<open>abort(500)\<close>, which the handler of 500 turns into a response of status 500. The
  table is unchanged.
\<close>

theorem delete_unknown_id_answers_500:
  "delete_drink JNull 1 [] = (Inl (HTTPException 500), []) \<and>
   handle_exception (HTTPException 500) = unknown \<and> status unknown = 500"
  by (simp add: delete_drink_def delete_drink_try_def get_or_404_def bind_key_def
      handle_exception_def unknown_def error_body_def)

text \<open>
  C2. After successful \<^verbatim>\<open>POST\<close> and \<^verbatim>\<open>PATCH\<close> requests no two rows should have
  titles equal up to case. Starting from the empty table, posting Water and Tea and then
  patching drink 2 to the title water all succeed and leave two rows titled Water and
  water: \<^verbatim>\<open>patch_drink\<close> has no title check.
\<close>

theorem patch_breaks_title_uniqueness:
  "successful real_text [POST (drink_payload ''Water''), POST (drink_payload ''Tea''),
               PATCH 2 (drink_payload ''water'')] [] = Some two_waters \<and>
   \<not> titles_unique two_waters"
  by code_simp

text \<open>
  C3. A successful \<^verbatim>\<open>PATCH\<close> should answer with the long form of every drink. The
  handler returns what \<^verbatim>\<open>get_drinks\<close> builds: the short forms, without the name of a
  recipe entry, under the key \<open>sucess\<close>. The long form of the updated row is the
  second equation.
\<close>

theorem patch_answers_short_forms:
  "patch_drink real_text JNull 1 (drink_payload ''Tonic'') water_table =
     (Inr (JObj [(''sucess'', JBool True),
                 (''drinks'', JArr [JObj [(''id'', JInt 1), (''title'', JStr ''Tonic''),
                    (''recipe'', JArr [JObj [(''color'', JStr ''blue''), (''parts'', JInt 1)]])]])]),
      [\<lparr>drink_id = 1, title = ''Tonic'', recipe = water_recipe\<rparr>]) \<and>
   long \<lparr>drink_id = 1, title = ''Tonic'', recipe = water_recipe\<rparr> =
     Inr (JObj [(''id'', JInt 1), (''title'', JStr ''Tonic''),
                (''recipe'', JArr [JObj [(''name'', JStr ''water''), (''color'', JStr ''blue''),
                                         (''parts'', JInt 1)]])])"
  by code_simp

text \<open>
  C4. Every successful response should carry the key \<open>success\<close> with the value true.
  The bodies of \<^verbatim>\<open>GET /drinks\<close> and \<^verbatim>\<open>GET /drinks-detail\<close> (and so of
  \<^verbatim>\<open>PATCH\<close>, see C3) carry the key \<open>sucess\<close> instead; looking up \<open>success\<close> in
  them gives \<^verbatim>\<open>None\<close>.
\<close>

theorem get_drinks_body_lacks_success:
  "get_drinks [] = Inr (JObj [(''sucess'', JBool True), (''drinks'', JArr [])]) \<and>
   get_drinks_detail JNull [] = Inr (JObj [(''sucess'', JBool True), (''drinks'', JArr [])]) \<and>
   py_get [(''sucess'', JBool True), (''drinks'', JArr [])] ''success'' = JNull"
  by code_simp

text \<open>
  C5. A \<^verbatim>\<open>POST\<close> or \<^verbatim>\<open>PATCH\<close> whose payload has no title, no recipe, a recipe
  that is not a list, or a recipe entry without name, color or parts should be answered
  with 422, the table unchanged. The validation calls \<^verbatim>\<open>get\<close> on the payload and on
  every entry without looking at their types: a recipe whose entry without a name stands
  behind the number 5 raises \<^verbatim>\<open>AttributeError\<close> at the number, outside any
  \<^verbatim>\<open>try\<close>, and the answer is 500 for \<^verbatim>\<open>POST\<close> and for \<^verbatim>\<open>PATCH\<close> of an
  existing id; so is it for the payload \<^verbatim>\<open>null\<close>, which has no title. The table is
  unchanged.
\<close>

theorem entry_behind_number_answers_500:
  "post_drink real_text JNull unnamed_entry_payload water_table =
     (Inl AttributeError, water_table) \<and>
   patch_drink real_text JNull 1 unnamed_entry_payload water_table =
     (Inl AttributeError, water_table) \<and>
   post_drink real_text JNull (Readable JNull) water_table = (Inl AttributeError, water_table) \<and>
   handle_exception AttributeError = unknown \<and> status unknown = 500"
  by code_simp

text \<open>
  C6. A \<^verbatim>\<open>POST\<close> whose title equals, up to case, the title of an existing row should
  be answered with 422, the table unchanged. When two rows carry that title, as after the
  requests of C2, the title query of \<^verbatim>\<open>post_drink\<close> raises on its second match,
  outside any \<^verbatim>\<open>try\<close>, and the answer is 500.
\<close>

theorem duplicate_title_two_rows_answers_500:
  "successful real_text [POST (drink_payload ''Water''), POST (drink_payload ''Tea''),
               PATCH 2 (drink_payload ''water'')] [] = Some two_waters \<and>
   post_drink real_text JNull (drink_payload ''WATER'') two_waters =
     (Inl MultipleResultsFound, two_waters) \<and>
   status (handle_exception MultipleResultsFound) = 500"
  by code_simp

text \<open>
  C7. A \<^verbatim>\<open>PATCH /drinks/{id}\<close> for an id that no row has should be answered with
  404 whatever the payload is. The handler reads the body first: on a body that cannot be
  read as JSON the answer is 400. An id of 2 to the power 63 cannot be bound to the
  lookup, which raises outside any \<^verbatim>\<open>try\<close>: the answer is 500.
\<close>

theorem patch_unknown_id_unreadable_or_large:
  "patch_drink blank_real_text JNull 7 Unreadable water_table =
     (Inl (HTTPException 400), water_table) \<and>
   status (handle_exception (HTTPException 400)) = 400 \<and>
   patch_drink blank_real_text JNull 9223372036854775808 (Readable JNull) water_table =
     (Inl OverflowError, water_table) \<and>
   status (handle_exception OverflowError) = 500"
  by (simp add: patch_drink_def bind_key_def status_handlers)

text \<open>
  C7, amended. A \<^verbatim>\<open>PATCH /drinks/{id}\<close> whose body can be read and whose id fits a
  key of the store (it is below 2 to the power 63), for an id that no row has, is
  answered with 404 whatever value the payload has, \<^verbatim>\<open>None\<close> included: the lookup
  comes before the attribute validation. The table is left as it was.
\<close>

theorem patch_unknown_id_404:
  assumes "i < 2 ^ 63" and "\<forall>d\<in>set tbl. drink_id d \<noteq> i"
  shows "patch_drink real_text payload i (Readable data) tbl = (Inl (HTTPException 404), tbl) \<and>
         handle_exception (HTTPException 404) = not_found \<and> status not_found = 404"
  using assms
  by (simp add: patch_drink_unknown handle_exception_def not_found_def error_body_def)

theorem patch_unknown_id_404_witness:
  "patch_drink blank_real_text JNull 7 (Readable JNull) water_table =
     (Inl (HTTPException 404), water_table) \<and>
   patch_drink blank_real_text JNull 7 (drink_payload ''Tea'') water_table =
     (Inl (HTTPException 404), water_table) \<and>
   status not_found = 404"
  using patch_unknown_id_404
      [where i = 7 and tbl = water_table and real_text = blank_real_text and payload = JNull
         and data = JNull]
    patch_unknown_id_404
      [where i = 7 and tbl = water_table and real_text = blank_real_text and payload = JNull
         and data = "JObj [(''title'', JStr ''Tea''), (''recipe'', water_recipe)]"]
  by (simp add: water_table_def drink_payload_def)



text \<open>
  C10. A \<^verbatim>\<open>POST\<close> or \<^verbatim>\<open>PATCH\<close> payload with a recipe entry whose parts are 0
  should be answered with 422. For a \<^verbatim>\<open>PATCH\<close> to an id that no row has the answer
  is 404, the lookup coming first (C7). When the entry stands behind the number 5, the
  validation raises at the number and the answer is 500.
\<close>

theorem zero_parts_answers_404_or_500:
  "patch_drink blank_real_text JNull 1 zero_parts_payload [] = (Inl (HTTPException 404), []) \<and>
   status (handle_exception (HTTPException 404)) = 404 \<and>
   post_drink blank_real_text JNull late_zero_parts_payload [] = (Inl AttributeError, []) \<and>
   status (handle_exception AttributeError) = 500"
  by code_simp

text \<open>
  C10, amended. A payload with a recipe entry whose parts are 0 (the integer or the
  float), every entry before that one being an object, fails the attribute validation
  with 422: a \<^verbatim>\<open>POST\<close> is answered with 422, and so is a \<^verbatim>\<open>PATCH\<close> whose target
  id is the primary key of a row; the table is left as it was. What follows the entry
  in the recipe does not matter.
\<close>

theorem zero_parts_rejected:
  assumes rc: "py_get kvs ''recipe'' = JArr (pre @ JObj fs # post)"
    and pre: "\<forall>r\<in>set pre. \<exists>gs. r = JObj gs"
    and zero: "py_get fs ''parts'' = JInt 0 \<or> py_get fs ''parts'' = JFloat 0"
  shows "check_drink_attribute (JObj kvs) = Inl (HTTPException 422) \<and>
     post_drink real_text payload (Readable (JObj kvs)) tbl = (Inl (HTTPException 422), tbl) \<and>
     (primary_key tbl \<and> i \<in> drink_id ` set tbl \<longrightarrow>
        patch_drink real_text payload i (Readable (JObj kvs)) tbl =
          (Inl (HTTPException 422), tbl)) \<and>
     status (handle_exception (HTTPException 422)) = 422"
proof -
  from zero have "\<not> truthy (py_get fs ''parts'')" by auto
  then have "check_recipe_entry (JObj fs) = Inl (HTTPException 422)"
    by (intro check_recipe_entry_lacking) simp
  with pre have "check_recipe (pre @ JObj fs # post) = Inl (HTTPException 422)"
    by (rule check_recipe_lacking)
  with rc have rej: "check_drink_attribute (JObj kvs) = Inl (HTTPException 422)"
    by (simp add: check_drink_attribute_def)
  have post: "post_drink real_text payload (Readable (JObj kvs)) tbl =
      (Inl (HTTPException 422), tbl)"
    using rej by (rule post_drink_rejected)
  have patch: "patch_drink real_text payload i (Readable (JObj kvs)) tbl =
      (Inl (HTTPException 422), tbl)"
    if "primary_key tbl" "i \<in> drink_id ` set tbl"
    using rej that by (rule patch_drink_existing_rejected)
  from rej post patch show ?thesis by (simp add: status_handlers)
qed

theorem zero_parts_rejected_witness:
  "post_drink blank_real_text JNull
     (Readable (JObj [(''title'', JStr ''Water''),
        (''recipe'', JArr [JObj [(''name'', JStr ''water''), (''color'', JStr ''blue''),
                                 (''parts'', JInt 0)], JInt 5])])) water_table =
     (Inl (HTTPException 422), water_table) \<and>
   patch_drink blank_real_text JNull 1
     (Readable (JObj [(''title'', JStr ''Water''),
        (''recipe'', JArr [JObj [(''name'', JStr ''water''), (''color'', JStr ''blue''),
                                 (''parts'', JInt 0)], JInt 5])])) water_table =
     (Inl (HTTPException 422), water_table)"
proof -
  let ?entry = "[(''name'', JStr ''water''), (''color'', JStr ''blue''), (''parts'', JInt 0)]"
  let ?kvs = "[(''title'', JStr ''Water''), (''recipe'', JArr [JObj ?entry, JInt 5])]"
  have h1: "py_get ?kvs ''recipe'' = JArr ([] @ JObj ?entry # [JInt 5])"
    by (simp add: py_get_def)
  have h2: "\<forall>r\<in>set []. \<exists>gs. r = JObj gs" by simp
  have h3: "py_get ?entry ''parts'' = JInt 0 \<or> py_get ?entry ''parts'' = JFloat 0"
    by (simp add: py_get_def)
  show ?thesis
    using zero_parts_rejected
      [OF h1 h2 h3, where real_text = blank_real_text and payload = JNull
         and tbl = water_table and i = 1]
    by (simp add: water_table_def primary_key_def)
qed

end
